theory Spec2Isabelle
  imports Complex_Main "HOL-Library.Word" "HOL-Library.Sublist"
begin

section \<open>JavaScript values used by the bulk-add pipeline\<close>

subsection \<open>Strings\<close>

text \<open>
  A JavaScript string is a sequence of 16-bit code units. \<open>str\<close> embeds an ASCII
  literal of the source.
\<close>

type_synonym jsstring = "16 word list"

definition str :: "string \<Rightarrow> jsstring" where
  "str s = map of_char s"

text \<open>
  \<open>String.prototype.trim\<close> strips the code units of the ECMAScript productions
  WhiteSpace (TAB, VT, FF, ZWNBSP and the Unicode category Zs) and LineTerminator
  (LF, CR, LS, PS) from both ends.
\<close>

definition isWhiteSpace :: "16 word \<Rightarrow> bool" where
  "isWhiteSpace u \<longleftrightarrow>
     u \<in> {0x0009, 0x000A, 0x000B, 0x000C, 0x000D, 0x0020, 0x00A0, 0x1680,
          0x2028, 0x2029, 0x202F, 0x205F, 0x3000, 0xFEFF}
     \<or> (0x2000 \<le> u \<and> u \<le> 0x200A)"

definition trim :: "jsstring \<Rightarrow> jsstring" where
  "trim s = rev (dropWhile isWhiteSpace (rev (dropWhile isWhiteSpace s)))"

text \<open>\<open>String.prototype.includes\<close>: the argument occurs as a contiguous block.\<close>

fun includes_str :: "jsstring \<Rightarrow> jsstring \<Rightarrow> bool" where
  "includes_str [] t = (t = [])"
| "includes_str (c # s) t = (prefix t (c # s) \<or> includes_str s t)"

text \<open>
  \<open>Array.prototype.join\<close> on strings, and the decimal rendering of an array length
  inside a template literal.
\<close>

fun join :: "jsstring list \<Rightarrow> jsstring \<Rightarrow> jsstring" where
  "join [] sep = []"
| "join [s] sep = s"
| "join (s # t # ss) sep = s @ sep @ join (t # ss) sep"

fun decimal :: "nat \<Rightarrow> jsstring" where
  "decimal n =
     (if n < 10 then [of_nat (48 + n)]
      else decimal (n div 10) @ [of_nat (48 + n mod 10)])"

declare decimal.simps [simp del]

subsection \<open>Numbers\<close>

text \<open>
  A JavaScript number is a finite value, an infinity or NaN. The pipeline never computes
  with numbers: it converts, tests truthiness and passes them on, so a finite value is kept
  as the rational it denotes; \<open>-0\<close> and \<open>+0\<close>, which are both falsy and equal under
  \<open>===\<close>, are one value. A spreadsheet cell of type \<open>number | ''\<close> is an optional number,
  \<open>None\<close> being the empty string.
\<close>

datatype jsnumber = Fin rat | PosInf | NegInf | NaN

type_synonym cell = "jsnumber option"

definition Number :: "cell \<Rightarrow> jsnumber" where
  "Number c = (case c of None \<Rightarrow> Fin 0 | Some n \<Rightarrow> n)"

definition truthy :: "jsnumber \<Rightarrow> bool" where
  "truthy n = (case n of Fin q \<Rightarrow> q \<noteq> 0 | PosInf \<Rightarrow> True | NegInf \<Rightarrow> True | NaN \<Rightarrow> False)"

text \<open>The operator \<open>a || b\<close> on numbers.\<close>

definition orElse :: "jsnumber \<Rightarrow> jsnumber \<Rightarrow> jsnumber" where
  "orElse a b = (if truthy a then a else b)"

definition nonNegative :: "jsnumber \<Rightarrow> bool" where
  "nonNegative n = (case n of Fin q \<Rightarrow> 0 \<le> q | PosInf \<Rightarrow> True | NegInf \<Rightarrow> False | NaN \<Rightarrow> False)"

definition presentNonNegative :: "cell \<Rightarrow> bool" where
  "presentNonNegative c = (case c of None \<Rightarrow> False | Some n \<Rightarrow> nonNegative n)"

section \<open>Data model\<close>

record ProductTemplate =
  id :: jsstring
  name :: jsstring
  category :: "jsstring option"
  image_url :: "jsstring option"

text \<open>
  The object literal built by \<open>handleSave\<close>, of type
  \<open>Omit<Product, 'id' | 'createdAt' | 'updatedAt'>\<close>.
\<close>

record Product =
  name :: jsstring
  category :: jsstring
  costPrice :: jsnumber
  sellingPrice :: jsnumber
  currentStock :: jsnumber
  lowStockThreshold :: jsnumber
  description :: jsstring
  barcode :: jsstring
  imageUrl :: jsstring

record BulkProductRow =
  id :: jsstring
  name :: jsstring
  category :: jsstring
  costPrice :: cell
  sellingPrice :: cell
  currentStock :: cell
  lowStockThreshold :: cell
  isValid :: bool
  errors :: "jsstring list"

datatype ViewMode = Spreadsheet | Templates

text \<open>The three \<open>useState\<close> cells of \<open>NewBulkAddModal\<close>.\<close>

record ModalState =
  viewMode :: ViewMode
  selectedTemplates :: "ProductTemplate list"
  spreadsheetData :: "BulkProductRow list"

text \<open>
  What a handler does to the outside: a toast, a call of the \<open>onSave\<close> or \<open>onClose\<close>
  prop, a file download.
\<close>

datatype Variant = Destructive

record ToastArgs =
  title :: jsstring
  description :: jsstring
  variant :: "Variant option"
  duration :: "nat option"

datatype Effect =
    Toast ToastArgs
  | OnSave "Product list"
  | OnClose
  | Download jsstring jsstring jsstring

section \<open>The modal's handlers\<close>

text \<open>The initialisation effect, run when \<open>isOpen\<close> changes.\<close>

definition initialData :: "BulkProductRow list" where
  "initialData =
     map (\<lambda>index.
       \<lparr> BulkProductRow.id = str ''row_'' @ decimal index,
         name = [],
         category = [],
         costPrice = None,
         sellingPrice = None,
         currentStock = None,
         lowStockThreshold = None,
         isValid = False,
         errors = [] \<rparr>) [0..<20]"

definition initialize :: "bool \<Rightarrow> ModalState \<Rightarrow> ModalState" where
  "initialize isOpen st =
     (if isOpen \<and> length (spreadsheetData st) = 0
      then st\<lparr>spreadsheetData := initialData\<rparr>
      else st)"

definition handleClearAll :: "ModalState \<Rightarrow> ModalState \<times> Effect list" where
  "handleClearAll st =
     (let clearedData =
        map (\<lambda>row. row\<lparr>
          BulkProductRow.name := [],
          BulkProductRow.category := [],
          BulkProductRow.costPrice := None,
          BulkProductRow.sellingPrice := None,
          BulkProductRow.currentStock := None,
          BulkProductRow.lowStockThreshold := None,
          isValid := False,
          errors := [] \<rparr>) (spreadsheetData st)
      in (st\<lparr>selectedTemplates := [], spreadsheetData := clearedData\<rparr>, []))"

definition handleClose :: "ModalState \<Rightarrow> ModalState \<times> Effect list" where
  "handleClose st =
     (st\<lparr>viewMode := Spreadsheet, selectedTemplates := [], spreadsheetData := []\<rparr>,
      [OnClose])"

text \<open>The two local values of \<open>handleSave\<close>.\<close>

definition validRows :: "BulkProductRow list \<Rightarrow> BulkProductRow list" where
  "validRows data = filter (\<lambda>row. isValid row \<and> trim (BulkProductRow.name row) \<noteq> []) data"

definition products :: "BulkProductRow list \<Rightarrow> Product list" where
  "products rows =
     map (\<lambda>row.
       \<lparr> Product.name = trim (BulkProductRow.name row),
         category = BulkProductRow.category row,
         costPrice = orElse (Number (BulkProductRow.costPrice row)) (Fin 0),
         sellingPrice = Number (BulkProductRow.sellingPrice row),
         currentStock = orElse (Number (BulkProductRow.currentStock row)) (Fin 0),
         lowStockThreshold = orElse (Number (BulkProductRow.lowStockThreshold row)) (Fin 10),
         description = [],
         barcode = [],
         imageUrl = [] \<rparr>) rows"

definition handleSave :: "ModalState \<Rightarrow> ModalState \<times> Effect list" where
  "handleSave st =
     (if length (validRows (spreadsheetData st)) = 0 then
        (st, [Toast \<lparr> title = str ''No Valid Products'',
                      description = str ''Please add at least one valid product before saving.'',
                      variant = Some Destructive,
                      duration = None \<rparr>])
      else
        let ps = products (validRows (spreadsheetData st));
            (st', closed) = handleClose st
        in (st',
            [OnSave ps,
             Toast \<lparr> title = str ''Products Added'',
                     description = str ''Successfully added '' @ decimal (length ps)
                                   @ str '' products to inventory.'',
                     variant = None,
                     duration = None \<rparr>] @ closed))"

definition csvContent :: jsstring where
  "csvContent =
     join [str ''Name,Category,Cost Price,Selling Price,Current Stock,Low Stock Threshold'',
           str ''Sample Product,General,10.00,15.00,100,10'',
           str ''Another Product,Electronics,25.50,35.00,50,5''] [0x000A]"

text \<open>
  The download is one effect: the file name, the MIME type of the blob and its content.
\<close>

definition downloadTemplate :: "ModalState \<Rightarrow> ModalState \<times> Effect list" where
  "downloadTemplate st =
     (st, [Download (str ''bulk-products-template.csv'') (str ''text/csv'') csvContent,
           Toast \<lparr> title = str ''Template Downloaded'',
                   description = str ''CSV template has been downloaded to your device.'',
                   variant = None,
                   duration = None \<rparr>])"

definition validProductsCount :: "ModalState \<Rightarrow> nat" where
  "validProductsCount st = length (filter (\<lambda>row. isValid row) (spreadsheetData st))"

definition filledProductsCount :: "ModalState \<Rightarrow> nat" where
  "filledProductsCount st =
     length (filter (\<lambda>row. trim (BulkProductRow.name row) \<noteq> []) (spreadsheetData st))"

definition handleTemplateSelect :: "ProductTemplate \<Rightarrow> ModalState \<Rightarrow> ModalState" where
  "handleTemplateSelect template st =
     (let prev = selectedTemplates st;
          isSelected = list_ex (\<lambda>t. ProductTemplate.id t = ProductTemplate.id template) prev
      in st\<lparr>selectedTemplates :=
              (if isSelected
               then filter (\<lambda>t. ProductTemplate.id t \<noteq> ProductTemplate.id template) prev
               else prev @ [template])\<rparr>)"

definition toggleView :: "ModalState \<Rightarrow> ModalState" where
  "toggleView st =
     st\<lparr>viewMode := (if viewMode st = Spreadsheet then Templates else Spreadsheet)\<rparr>"

section \<open>The template catalogue's filter\<close>

text \<open>
  \<open>filteredTemplates\<close> of \<open>NewTemplatesView\<close>. The hook's \<open>templates\<close> value is \<open>None\<close>
  when it is not an array. \<open>String.prototype.toLowerCase\<close> is a parameter: its Unicode case
  table is not part of the program, and the filter calls it as a black box.
\<close>

definition filteredTemplates ::
  "(jsstring \<Rightarrow> jsstring) \<Rightarrow> ProductTemplate list option \<Rightarrow> jsstring \<Rightarrow> jsstring
     \<Rightarrow> ProductTemplate list" where
  "filteredTemplates toLowerCase templates localSearchTerm selectedCategory =
     (case templates of
        None \<Rightarrow> []
      | Some ts \<Rightarrow>
          let filtered = ts;
              filtered =
                (if trim localSearchTerm \<noteq> [] then
                   let searchLower = trim (toLowerCase localSearchTerm)
                   in filter (\<lambda>template.
                        includes_str (toLowerCase (ProductTemplate.name template)) searchLower
                        \<or> (case ProductTemplate.category template of
                              None \<Rightarrow> False
                            | Some c \<Rightarrow> includes_str (toLowerCase c) searchLower)) filtered
                 else filtered);
              filtered =
                (if selectedCategory \<noteq> [] \<and> selectedCategory \<noteq> str ''all'' then
                   filter (\<lambda>template. ProductTemplate.category template = Some selectedCategory)
                     filtered
                 else filtered)
          in filtered)"

section \<open>The page's bulk-create handler\<close>

text \<open>
  \<open>createProduct\<close> belongs to the product store hook and is a parameter. One call either
  throws before it returns a promise, or returns a promise that is fulfilled, is rejected, or
  never settles. The store's state is threaded through the calls, so the outcome of a call
  may depend on the calls before it.
\<close>

datatype Attempt = Fulfilled | Rejected | Pending | Throws

record PageState =
  showTemplatesPanel :: bool

text \<open>
  \<open>productsData.map(productData => createProduct(productData))\<close>: the calls are made in order,
  and a call that throws ends the iteration.
\<close>

fun createAll ::
  "('s \<Rightarrow> Product \<Rightarrow> Attempt \<times> 's) \<Rightarrow> Product list \<Rightarrow> 's \<Rightarrow> Attempt list \<times> 's" where
  "createAll createProduct [] store = ([], store)"
| "createAll createProduct (productData # rest) store =
     (let (attempt, store') = createProduct store productData
      in if attempt = Throws then ([Throws], store')
         else let (attempts, store'') = createAll createProduct rest store'
              in (attempt # attempts, store''))"

definition bulkToast :: "nat \<Rightarrow> nat \<Rightarrow> ToastArgs" where
  "bulkToast successful failed =
     (if failed = 0 then
        \<lparr> title = str ''Bulk Products Added'',
          description = decimal successful @ str '' products have been added to your inventory.'',
          variant = None,
          duration = Some 3000 \<rparr>
      else
        \<lparr> title = str ''Partial Success'',
          description = decimal successful @ str '' products added, '' @ decimal failed
                        @ str '' failed. Please check and retry failed items.'',
          variant = Some Destructive,
          duration = Some 5000 \<rparr>)"

text \<open>
  \<open>handleBulkAddProducts\<close>. The first component of the result is \<open>None\<close> when the
  \<open>await\<close> on \<open>Promise.allSettled\<close> never resumes, which is the case exactly when one of the
  promises never settles; otherwise it is the page state and the toasts at the handler's end.
  The \<open>catch\<close> branch runs when a call of \<open>createProduct\<close> throws (its \<open>console.error\<close> is
  not recorded).
\<close>

definition handleBulkAddProducts ::
  "('s \<Rightarrow> Product \<Rightarrow> Attempt \<times> 's) \<Rightarrow> Product list \<Rightarrow> PageState \<Rightarrow> 's
     \<Rightarrow> (PageState \<times> Effect list) option \<times> 's" where
  "handleBulkAddProducts createProduct productsData page store =
     (let (attempts, store') = createAll createProduct productsData store
      in if Throws \<in> set attempts then
           (Some (page, [Toast \<lparr> title = str ''Error'',
                                  description = str ''Failed to add products. Please try again.'',
                                  variant = Some Destructive,
                                  duration = None \<rparr>]), store')
         else if Pending \<in> set attempts then (None, store')
         else
           let results = attempts;
               successful = length (filter (\<lambda>result. result = Fulfilled) results);
               failed = length (filter (\<lambda>result. result = Rejected) results)
           in (Some (page\<lparr>showTemplatesPanel := False\<rparr>, [Toast (bulkToast successful failed)]),
               store'))"

section \<open>Row validation\<close>

text \<open>
  Modelled from the spec: \<open>validate\<close> of the Row Store. The component that edits and
  validates rows, \<open>NewSpreadsheetView\<close>, is not among the sources; the modal only hands it
  \<open>spreadsheetData\<close> and \<open>setSpreadsheetData\<close>. The spec's rule: a row is valid iff its
  trimmed name is non-empty and its selling price is present and a non-negative number; the
  errors are empty when the row is valid. The messages for an invalid row are a parameter.
\<close>

definition validate ::
  "(BulkProductRow \<Rightarrow> jsstring list) \<Rightarrow> BulkProductRow \<Rightarrow> bool \<times> jsstring list" where
  "validate messages row =
     (let valid = (trim (BulkProductRow.name row) \<noteq> []
                   \<and> presentNonNegative (BulkProductRow.sellingPrice row))
      in (valid, if valid then [] else messages row))"

datatype Field = Name | Category | CostPrice | SellingPrice | CurrentStock | LowStockThreshold

text \<open>
  Modelled from the spec: \<open>updateField(rowId, field, rawValue)\<close> of the Row Store, also
  part of \<open>NewSpreadsheetView\<close>. It applies one field edit and validates that row again;
  every other row is left as it is. Numeric text is read by \<open>parseNumber\<close>, a parameter, which
  gives the unset cell for text that is not a number.
\<close>

definition setField ::
  "(jsstring \<Rightarrow> cell) \<Rightarrow> Field \<Rightarrow> jsstring \<Rightarrow> BulkProductRow \<Rightarrow> BulkProductRow" where
  "setField parseNumber field rawValue row =
     (case field of
        Name \<Rightarrow> row\<lparr>BulkProductRow.name := rawValue\<rparr>
      | Category \<Rightarrow> row\<lparr>BulkProductRow.category := rawValue\<rparr>
      | CostPrice \<Rightarrow> row\<lparr>BulkProductRow.costPrice := parseNumber rawValue\<rparr>
      | SellingPrice \<Rightarrow> row\<lparr>BulkProductRow.sellingPrice := parseNumber rawValue\<rparr>
      | CurrentStock \<Rightarrow> row\<lparr>BulkProductRow.currentStock := parseNumber rawValue\<rparr>
      | LowStockThreshold \<Rightarrow> row\<lparr>BulkProductRow.lowStockThreshold := parseNumber rawValue\<rparr>)"

definition updateField ::
  "(BulkProductRow \<Rightarrow> jsstring list) \<Rightarrow> (jsstring \<Rightarrow> cell) \<Rightarrow> jsstring \<Rightarrow> Field \<Rightarrow> jsstring
     \<Rightarrow> BulkProductRow list \<Rightarrow> BulkProductRow list" where
  "updateField messages parseNumber rowId field rawValue rows =
     map (\<lambda>row.
       if BulkProductRow.id row = rowId then
         let edited = setField parseNumber field rawValue row;
             (valid, errs) = validate messages edited
         in edited\<lparr>isValid := valid, errors := errs\<rparr>
       else row) rows"

text \<open>
  The states of the modal: it starts with the initial values of its \<open>useState\<close> cells, and
  each step is one of its handlers or effects, or an edit made by the spreadsheet view
  through \<open>onDataChange\<close>.
\<close>

definition initialState :: ModalState where
  "initialState = \<lparr> viewMode = Spreadsheet, selectedTemplates = [], spreadsheetData = [] \<rparr>"

inductive reachable ::
  "(BulkProductRow \<Rightarrow> jsstring list) \<Rightarrow> (jsstring \<Rightarrow> cell) \<Rightarrow> ModalState \<Rightarrow> bool"
  for messages :: "BulkProductRow \<Rightarrow> jsstring list" and parseNumber :: "jsstring \<Rightarrow> cell" where
  start: "reachable messages parseNumber initialState"
| opened: "reachable messages parseNumber st \<Longrightarrow>
     reachable messages parseNumber (initialize isOpen st)"
| edited: "reachable messages parseNumber st \<Longrightarrow>
     reachable messages parseNumber
       (st\<lparr>spreadsheetData :=
             updateField messages parseNumber rowId field rawValue (spreadsheetData st)\<rparr>)"
| selected: "reachable messages parseNumber st \<Longrightarrow>
     reachable messages parseNumber (handleTemplateSelect template st)"
| toggled: "reachable messages parseNumber st \<Longrightarrow>
     reachable messages parseNumber (toggleView st)"
| cleared: "reachable messages parseNumber st \<Longrightarrow>
     reachable messages parseNumber (fst (handleClearAll st))"
| saved: "reachable messages parseNumber st \<Longrightarrow>
     reachable messages parseNumber (fst (handleSave st))"
| closed: "reachable messages parseNumber st \<Longrightarrow>
     reachable messages parseNumber (fst (handleClose st))"
| downloaded: "reachable messages parseNumber st \<Longrightarrow>
     reachable messages parseNumber (fst (downloadTemplate st))"

text \<open>The validity rule as a predicate on one row.\<close>

definition rowInvariant :: "BulkProductRow \<Rightarrow> bool" where
  "rowInvariant row =
     (isValid row = (trim (BulkProductRow.name row) \<noteq> []
                     \<and> presentNonNegative (BulkProductRow.sellingPrice row)))"

section \<open>Properties of the Row Store\<close>

lemma trim_Nil: "trim [] = []"
  by (simp add: trim_def)

lemma length_initialData: "length initialData = 20"
  by (simp add: initialData_def)

lemma initialData_invariant: "list_all rowInvariant initialData"
  by (simp add: list_all_iff rowInvariant_def initialData_def trim_Nil)

lemma validate_invariant:
  "validate messages edited = (valid, errs) \<Longrightarrow>
     rowInvariant (edited\<lparr>isValid := valid, errors := errs\<rparr>)"
  by (auto simp: validate_def rowInvariant_def Let_def)

lemma updateField_invariant:
  "list_all rowInvariant rows \<Longrightarrow>
     list_all rowInvariant (updateField messages parseNumber rowId field rawValue rows)"
  by (auto simp: list_all_iff updateField_def Let_def validate_invariant split: prod.splits)

lemma handleClearAll_invariant:
  "list_all rowInvariant (spreadsheetData (fst (handleClearAll st)))"
  by (simp add: handleClearAll_def list_all_iff rowInvariant_def trim_Nil)

lemma handleSave_data:
  "spreadsheetData (fst (handleSave st)) = spreadsheetData st
   \<or> spreadsheetData (fst (handleSave st)) = []"
  by (simp add: handleSave_def handleClose_def Let_def)

lemma reachable_invariant:
  "reachable messages parseNumber st \<Longrightarrow> list_all rowInvariant (spreadsheetData st)"
proof (induction rule: reachable.induct)
  case start
  show ?case by (simp add: initialState_def)
next
  case (opened st isOpen)
  then show ?case by (simp add: initialize_def initialData_invariant)
next
  case (edited st rowId field rawValue)
  then show ?case by (simp add: updateField_invariant)
next
  case (selected st template)
  then show ?case by (simp add: handleTemplateSelect_def Let_def)
next
  case (toggled st)
  then show ?case by (simp add: toggleView_def)
next
  case (cleared st)
  show ?case by (rule handleClearAll_invariant)
next
  case (saved st)
  with handleSave_data[of st] show ?case by auto
next
  case (closed st)
  show ?case by (simp add: handleClose_def)
next
  case (downloaded st)
  then show ?case by (simp add: downloadTemplate_def)
qed

text \<open>
  Claim C1. In every state the modal can reach, every row of the Row Store has
  \<open>isValid\<close> true if and only if its trimmed name is non-empty and its selling price is
  present and a non-negative number. Cost price, stock and threshold do not occur in the
  condition. The rows are created and cleared by the modal; they are edited and validated by
  \<open>updateField\<close>, which is modelled from the spec.
\<close>

theorem isValid_iff_name_and_sellingPrice:
  assumes "reachable messages parseNumber st"
    and "row \<in> set (spreadsheetData st)"
  shows "isValid row \<longleftrightarrow>
           trim (BulkProductRow.name row) \<noteq> []
           \<and> presentNonNegative (BulkProductRow.sellingPrice row)"
  using reachable_invariant[OF assms(1)] assms(2)
  by (simp add: list_all_iff rowInvariant_def)

text \<open>
  The pipeline is opened, and the first row gets the name \<open>Widget\<close> and the selling price
  9.99: the row is valid although cost price, stock and threshold are unset.
\<close>

theorem isValid_iff_name_and_sellingPrice_witness:
  "reachable (\<lambda>row. [str ''invalid'']) (\<lambda>raw. Some (Fin (999 / 100)))
     ((initialize True initialState)
        \<lparr>spreadsheetData :=
           updateField (\<lambda>row. [str ''invalid'']) (\<lambda>raw. Some (Fin (999 / 100)))
             (str ''row_0'') SellingPrice (str ''9.99'')
             (updateField (\<lambda>row. [str ''invalid'']) (\<lambda>raw. Some (Fin (999 / 100)))
                (str ''row_0'') Name (str ''Widget'')
                (spreadsheetData (initialize True initialState)))\<rparr>)
   \<and> \<lparr> BulkProductRow.id = str ''row_0'', name = str ''Widget'', category = [],
         costPrice = None, sellingPrice = Some (Fin (999 / 100)), currentStock = None,
         lowStockThreshold = None, isValid = True, errors = [] \<rparr>
       \<in> set (spreadsheetData
         ((initialize True initialState)
            \<lparr>spreadsheetData :=
               updateField (\<lambda>row. [str ''invalid'']) (\<lambda>raw. Some (Fin (999 / 100)))
                 (str ''row_0'') SellingPrice (str ''9.99'')
                 (updateField (\<lambda>row. [str ''invalid'']) (\<lambda>raw. Some (Fin (999 / 100)))
                    (str ''row_0'') Name (str ''Widget'')
                    (spreadsheetData (initialize True initialState)))\<rparr>))
   \<and> (isValid \<lparr> BulkProductRow.id = str ''row_0'', name = str ''Widget'', category = [],
         costPrice = None, sellingPrice = Some (Fin (999 / 100)), currentStock = None,
         lowStockThreshold = None, isValid = True, errors = [] \<rparr>
       \<longleftrightarrow>
         trim (BulkProductRow.name \<lparr> BulkProductRow.id = str ''row_0'', name = str ''Widget'',
           category = [], costPrice = None, sellingPrice = Some (Fin (999 / 100)),
           currentStock = None, lowStockThreshold = None, isValid = True, errors = [] \<rparr>) \<noteq> []
         \<and> presentNonNegative (BulkProductRow.sellingPrice \<lparr> BulkProductRow.id = str ''row_0'',
           name = str ''Widget'', category = [], costPrice = None,
           sellingPrice = Some (Fin (999 / 100)), currentStock = None,
           lowStockThreshold = None, isValid = True, errors = [] \<rparr>))"
  (is "reachable ?m ?p ?st \<and> ?row \<in> set (spreadsheetData ?st) \<and> ?iff")
proof -
  have "reachable ?m ?p initialState"
    by (rule reachable.start)
  then have "reachable ?m ?p (initialize True initialState)"
    by (rule reachable.opened)
  then have "reachable ?m ?p
      ((initialize True initialState)
         \<lparr>spreadsheetData := updateField ?m ?p (str ''row_0'') Name (str ''Widget'')
            (spreadsheetData (initialize True initialState))\<rparr>)"
    by (rule reachable.edited)
  then have "reachable ?m ?p
      (((initialize True initialState)
         \<lparr>spreadsheetData := updateField ?m ?p (str ''row_0'') Name (str ''Widget'')
            (spreadsheetData (initialize True initialState))\<rparr>)
         \<lparr>spreadsheetData := updateField ?m ?p (str ''row_0'') SellingPrice (str ''9.99'')
            (spreadsheetData ((initialize True initialState)
              \<lparr>spreadsheetData := updateField ?m ?p (str ''row_0'') Name (str ''Widget'')
                 (spreadsheetData (initialize True initialState))\<rparr>))\<rparr>)"
    by (rule reachable.edited)
  then have r: "reachable ?m ?p ?st"
    by simp
  have h: "hd (spreadsheetData ?st) = ?row"
    by code_simp
  have "length (spreadsheetData ?st) = 20"
    by (simp add: updateField_def initialize_def initialState_def initialData_def)
  then have "spreadsheetData ?st \<noteq> []"
    by auto
  then have "hd (spreadsheetData ?st) \<in> set (spreadsheetData ?st)"
    by (rule hd_in_set)
  with h have mem: "?row \<in> set (spreadsheetData ?st)"
    by simp
  have "?iff"
    by (rule isValid_iff_name_and_sellingPrice[OF r mem])
  with r mem show ?thesis
    by (intro conjI)
qed

section \<open>Properties of the handlers\<close>

lemma validRows_initialData: "validRows initialData = []"
  by (simp add: validRows_def initialData_def filter_empty_conv)

text \<open>
  Claim C4. When no row qualifies, \<open>handleSave\<close> only shows the destructive toast
  \<open>No Valid Products\<close>: \<open>onSave\<close>, through which the page's bulk creation is reached, is not
  called, \<open>onClose\<close> is not called, and the modal's state (rows, selection, view) is returned
  as it was.
\<close>

theorem handleSave_nothing_valid:
  assumes "validRows (spreadsheetData st) = []"
  shows "handleSave st =
           (st, [Toast \<lparr> title = str ''No Valid Products'',
                         description = str ''Please add at least one valid product before saving.'',
                         variant = Some Destructive,
                         duration = None \<rparr>])"
  using assms by (simp add: handleSave_def)

text \<open>The twenty blank rows of a freshly opened pipeline.\<close>

theorem handleSave_nothing_valid_witness:
  "validRows (spreadsheetData \<lparr> viewMode = Spreadsheet, selectedTemplates = [],
                                 spreadsheetData = initialData \<rparr>) = []
   \<and> length initialData = 20
   \<and> handleSave \<lparr> viewMode = Spreadsheet, selectedTemplates = [], spreadsheetData = initialData \<rparr> =
       (\<lparr> viewMode = Spreadsheet, selectedTemplates = [], spreadsheetData = initialData \<rparr>,
        [Toast \<lparr> title = str ''No Valid Products'',
                 description = str ''Please add at least one valid product before saving.'',
                 variant = Some Destructive,
                 duration = None \<rparr>])"
proof (intro conjI)
  show v: "validRows (spreadsheetData \<lparr> viewMode = Spreadsheet, selectedTemplates = [],
                                 spreadsheetData = initialData \<rparr>) = []"
    by (simp add: validRows_initialData)
  show "length initialData = 20"
    by (rule length_initialData)
  show "handleSave \<lparr> viewMode = Spreadsheet, selectedTemplates = [], spreadsheetData = initialData \<rparr> =
       (\<lparr> viewMode = Spreadsheet, selectedTemplates = [], spreadsheetData = initialData \<rparr>,
        [Toast \<lparr> title = str ''No Valid Products'',
                 description = str ''Please add at least one valid product before saving.'',
                 variant = Some Destructive,
                 duration = None \<rparr>])"
    by (rule handleSave_nothing_valid[OF v])
qed

text \<open>
  Claim C10. When at least one row qualifies, \<open>handleSave\<close> calls \<open>onSave\<close> with the
  products, shows the toast \<open>Products Added\<close> whose count is the number of qualifying rows,
  and closes: view, selection and rows are reset and \<open>onClose\<close> is called. The result is
  determined by the modal's state alone. What \<open>onSave\<close> returns is discarded, so no
  outcome of a creation attempt can reach the toast: the count is that of the rows submitted.
\<close>

theorem handleSave_reports_submitted:
  assumes "validRows (spreadsheetData st) \<noteq> []"
  shows "handleSave st =
           (\<lparr> viewMode = Spreadsheet, selectedTemplates = [], spreadsheetData = [] \<rparr>,
            [OnSave (products (validRows (spreadsheetData st))),
             Toast \<lparr> title = str ''Products Added'',
                     description = str ''Successfully added ''
                                   @ decimal (length (validRows (spreadsheetData st)))
                                   @ str '' products to inventory.'',
                     variant = None,
                     duration = None \<rparr>,
             OnClose])"
  using assms by (simp add: handleSave_def handleClose_def products_def)

text \<open>
  One valid row is submitted and the toast says one product was added, also when the
  store rejects the creation and the page's handler reports no product added.
\<close>

theorem handleSave_reports_submitted_witness:
  "validRows (spreadsheetData
      \<lparr> viewMode = Spreadsheet, selectedTemplates = [],
        spreadsheetData =
          [\<lparr> BulkProductRow.id = str ''row_0'', name = str ''Widget'', category = [],
             costPrice = None, sellingPrice = Some (Fin (999 / 100)), currentStock = None,
             lowStockThreshold = None, isValid = True, errors = [] \<rparr>,
           \<lparr> BulkProductRow.id = str ''row_1'', name = [], category = [],
             costPrice = None, sellingPrice = None, currentStock = None,
             lowStockThreshold = None, isValid = False, errors = [] \<rparr>] \<rparr>) \<noteq> []
   \<and> handleSave
      \<lparr> viewMode = Spreadsheet, selectedTemplates = [],
        spreadsheetData =
          [\<lparr> BulkProductRow.id = str ''row_0'', name = str ''Widget'', category = [],
             costPrice = None, sellingPrice = Some (Fin (999 / 100)), currentStock = None,
             lowStockThreshold = None, isValid = True, errors = [] \<rparr>,
           \<lparr> BulkProductRow.id = str ''row_1'', name = [], category = [],
             costPrice = None, sellingPrice = None, currentStock = None,
             lowStockThreshold = None, isValid = False, errors = [] \<rparr>] \<rparr>
     = (\<lparr> viewMode = Spreadsheet, selectedTemplates = [], spreadsheetData = [] \<rparr>,
        [OnSave [\<lparr> Product.name = str ''Widget'', category = [], costPrice = Fin 0,
                   sellingPrice = Fin (999 / 100), currentStock = Fin 0,
                   lowStockThreshold = Fin 10, description = [], barcode = [],
                   imageUrl = [] \<rparr>],
         Toast \<lparr> title = str ''Products Added'',
                 description = str ''Successfully added 1 products to inventory.'',
                 variant = None,
                 duration = None \<rparr>,
         OnClose])
   \<and> fst (handleBulkAddProducts (\<lambda>store productData. (Rejected, store))
             [\<lparr> Product.name = str ''Widget'', category = [], costPrice = Fin 0,
                sellingPrice = Fin (999 / 100), currentStock = Fin 0,
                lowStockThreshold = Fin 10, description = [], barcode = [],
                imageUrl = [] \<rparr>]
             \<lparr> showTemplatesPanel = False \<rparr> ())
     = Some (\<lparr> showTemplatesPanel = False \<rparr>,
             [Toast \<lparr> title = str ''Partial Success'',
                      description = str ''0 products added, 1 failed. Please check and retry failed items.'',
                      variant = Some Destructive,
                      duration = Some 5000 \<rparr>])"
  (is "validRows (spreadsheetData ?st) \<noteq> [] \<and> handleSave ?st = ?res \<and> ?page")
proof -
  have v: "validRows (spreadsheetData ?st) =
      [\<lparr> BulkProductRow.id = str ''row_0'', name = str ''Widget'', category = [],
         costPrice = None, sellingPrice = Some (Fin (999 / 100)), currentStock = None,
         lowStockThreshold = None, isValid = True, errors = [] \<rparr>]"
    by (simp add: validRows_def trim_def str_def isWhiteSpace_def)
  then have ne: "validRows (spreadsheetData ?st) \<noteq> []"
    by simp
  have p: "products
      [\<lparr> BulkProductRow.id = str ''row_0'', name = str ''Widget'', category = [],
         costPrice = None, sellingPrice = Some (Fin (999 / 100)), currentStock = None,
         lowStockThreshold = None, isValid = True, errors = [] \<rparr>] =
      [\<lparr> Product.name = str ''Widget'', category = [], costPrice = Fin 0,
         sellingPrice = Fin (999 / 100), currentStock = Fin 0,
         lowStockThreshold = Fin 10, description = [], barcode = [],
         imageUrl = [] \<rparr>]"
    by (simp add: products_def Number_def orElse_def truthy_def trim_def str_def
          isWhiteSpace_def)
  have d: "str ''Successfully added '' @ decimal (Suc 0) @ str '' products to inventory.''
      = str ''Successfully added 1 products to inventory.''"
    by (simp add: decimal.simps str_def)
  have "handleSave ?st = ?res"
    using handleSave_reports_submitted[OF ne] unfolding v p
    by (simp add: d)
  moreover have ?page
    by (simp add: handleBulkAddProducts_def bulkToast_def decimal.simps str_def)
  ultimately show ?thesis
    using ne by (intro conjI)
qed

text \<open>
  Claim C2. The save path keeps exactly the rows with \<open>isValid\<close> true and a non-empty
  trimmed name, in their order, and maps each to the product record: the trimmed name, the
  category, \<open>Number(costPrice) || 0\<close>, \<open>Number(sellingPrice)\<close>,
  \<open>Number(currentStock) || 0\<close>, \<open>Number(lowStockThreshold) || 10\<close>, and empty description,
  barcode and image URL. Spelled out on the cell: an unset cell gives the default (0 for the
  selling price), NaN gives the default, and 0 as threshold gives 10.
\<close>

theorem products_of_validRows:
  "products (validRows data) =
     map (\<lambda>row.
       \<lparr> Product.name = trim (BulkProductRow.name row),
         category = BulkProductRow.category row,
         costPrice = (case BulkProductRow.costPrice row of
                        None \<Rightarrow> Fin 0
                      | Some n \<Rightarrow> if n = NaN then Fin 0 else n),
         sellingPrice = (case BulkProductRow.sellingPrice row of
                           None \<Rightarrow> Fin 0
                         | Some n \<Rightarrow> n),
         currentStock = (case BulkProductRow.currentStock row of
                           None \<Rightarrow> Fin 0
                         | Some n \<Rightarrow> if n = NaN then Fin 0 else n),
         lowStockThreshold = (case BulkProductRow.lowStockThreshold row of
                                None \<Rightarrow> Fin 10
                              | Some n \<Rightarrow> if n = NaN \<or> n = Fin 0 then Fin 10 else n),
         description = [],
         barcode = [],
         imageUrl = [] \<rparr>)
       (filter (\<lambda>row. isValid row \<and> trim (BulkProductRow.name row) \<noteq> []) data)"
  unfolding products_def validRows_def
  by (rule map_cong)
     (auto simp: Number_def orElse_def truthy_def split: option.splits jsnumber.splits)

text \<open>
  The row named \<open>Widget\<close> with selling price 9.99 and no other number yields the one
  product with cost price 0, stock 0 and threshold 10; the invalid and the blank row are
  dropped.
\<close>

theorem products_of_validRows_witness:
  "products (validRows
     [\<lparr> BulkProductRow.id = str ''row_0'', name = str ''Widget'', category = [],
        costPrice = None, sellingPrice = Some (Fin (999 / 100)), currentStock = None,
        lowStockThreshold = None, isValid = True, errors = [] \<rparr>,
      \<lparr> BulkProductRow.id = str ''row_1'', name = str ''Gadget'', category = [],
        costPrice = None, sellingPrice = None, currentStock = None,
        lowStockThreshold = None, isValid = False, errors = [str ''invalid''] \<rparr>,
      \<lparr> BulkProductRow.id = str ''row_2'', name = [], category = [],
        costPrice = None, sellingPrice = None, currentStock = None,
        lowStockThreshold = None, isValid = False, errors = [] \<rparr>])
   = [\<lparr> Product.name = str ''Widget'', category = [], costPrice = Fin 0,
        sellingPrice = Fin (999 / 100), currentStock = Fin 0, lowStockThreshold = Fin 10,
        description = [], barcode = [], imageUrl = [] \<rparr>]"
  using products_of_validRows[of
     "[\<lparr> BulkProductRow.id = str ''row_0'', name = str ''Widget'', category = [],
        costPrice = None, sellingPrice = Some (Fin (999 / 100)), currentStock = None,
        lowStockThreshold = None, isValid = True, errors = [] \<rparr>,
      \<lparr> BulkProductRow.id = str ''row_1'', name = str ''Gadget'', category = [],
        costPrice = None, sellingPrice = None, currentStock = None,
        lowStockThreshold = None, isValid = False, errors = [str ''invalid''] \<rparr>,
      \<lparr> BulkProductRow.id = str ''row_2'', name = [], category = [],
        costPrice = None, sellingPrice = None, currentStock = None,
        lowStockThreshold = None, isValid = False, errors = [] \<rparr>]"]
  by (simp add: trim_def str_def isWhiteSpace_def)

text \<open>
  Claim C3, as stated, fails: a valid row whose cost price, stock and threshold are
  present and non-negative, with threshold 0, is saved with threshold 10.
\<close>

theorem zero_threshold_replaced:
  "validRows
       [\<lparr> BulkProductRow.id = str ''row_0'', name = str ''Widget'', category = [],
          costPrice = Some (Fin 4), sellingPrice = Some (Fin 5), currentStock = Some (Fin 3),
          lowStockThreshold = Some (Fin 0), isValid = True, errors = [] \<rparr>]
     = [\<lparr> BulkProductRow.id = str ''row_0'', name = str ''Widget'', category = [],
          costPrice = Some (Fin 4), sellingPrice = Some (Fin 5), currentStock = Some (Fin 3),
          lowStockThreshold = Some (Fin 0), isValid = True, errors = [] \<rparr>]
   \<and> presentNonNegative (Some (Fin 4)) \<and> presentNonNegative (Some (Fin 3))
   \<and> presentNonNegative (Some (Fin 0))
   \<and> products (validRows
       [\<lparr> BulkProductRow.id = str ''row_0'', name = str ''Widget'', category = [],
          costPrice = Some (Fin 4), sellingPrice = Some (Fin 5), currentStock = Some (Fin 3),
          lowStockThreshold = Some (Fin 0), isValid = True, errors = [] \<rparr>])
     = [\<lparr> Product.name = str ''Widget'', category = [], costPrice = Fin 4,
          sellingPrice = Fin 5, currentStock = Fin 3, lowStockThreshold = Fin 10,
          description = [], barcode = [], imageUrl = [] \<rparr>]
   \<and> Product.lowStockThreshold (products (validRows
       [\<lparr> BulkProductRow.id = str ''row_0'', name = str ''Widget'', category = [],
          costPrice = Some (Fin 4), sellingPrice = Some (Fin 5), currentStock = Some (Fin 3),
          lowStockThreshold = Some (Fin 0), isValid = True, errors = [] \<rparr>]) ! 0) \<noteq> Fin 0"
  by (simp add: products_def validRows_def presentNonNegative_def nonNegative_def
        Number_def orElse_def truthy_def trim_def str_def isWhiteSpace_def)

text \<open>
  Claim C3, amended. For every row that is saved, if cost price and stock are present
  non-negative numbers and the threshold is a present non-negative number other than 0, the
  product carries exactly the entered values; a cost price or stock of 0 is kept.
\<close>

theorem products_keep_entered_values:
  assumes "i < length (validRows data)"
    and "BulkProductRow.costPrice (validRows data ! i) = Some c" and "nonNegative c"
    and "BulkProductRow.currentStock (validRows data ! i) = Some s" and "nonNegative s"
    and "BulkProductRow.lowStockThreshold (validRows data ! i) = Some t" and "nonNegative t"
    and "t \<noteq> Fin 0"
  shows "Product.costPrice (products (validRows data) ! i) = c
     \<and> Product.currentStock (products (validRows data) ! i) = s
     \<and> Product.lowStockThreshold (products (validRows data) ! i) = t"
  using assms
  by (auto simp: products_def Number_def orElse_def truthy_def nonNegative_def
           split: jsnumber.splits)

text \<open>
  A row with cost price 0, stock 0 and threshold 3 keeps all three.
\<close>

theorem products_keep_entered_values_witness:
  "validRows
       [\<lparr> BulkProductRow.id = str ''row_0'', name = str ''Widget'', category = [],
          costPrice = Some (Fin 0), sellingPrice = Some (Fin 5), currentStock = Some (Fin 0),
          lowStockThreshold = Some (Fin 3), isValid = True, errors = [] \<rparr>]
     = [\<lparr> BulkProductRow.id = str ''row_0'', name = str ''Widget'', category = [],
          costPrice = Some (Fin 0), sellingPrice = Some (Fin 5), currentStock = Some (Fin 0),
          lowStockThreshold = Some (Fin 3), isValid = True, errors = [] \<rparr>]
   \<and> nonNegative (Fin 0) \<and> nonNegative (Fin 3) \<and> Fin 3 \<noteq> Fin 0
   \<and> Product.costPrice (products (validRows
       [\<lparr> BulkProductRow.id = str ''row_0'', name = str ''Widget'', category = [],
          costPrice = Some (Fin 0), sellingPrice = Some (Fin 5), currentStock = Some (Fin 0),
          lowStockThreshold = Some (Fin 3), isValid = True, errors = [] \<rparr>]) ! 0) = Fin 0
   \<and> Product.currentStock (products (validRows
       [\<lparr> BulkProductRow.id = str ''row_0'', name = str ''Widget'', category = [],
          costPrice = Some (Fin 0), sellingPrice = Some (Fin 5), currentStock = Some (Fin 0),
          lowStockThreshold = Some (Fin 3), isValid = True, errors = [] \<rparr>]) ! 0) = Fin 0
   \<and> Product.lowStockThreshold (products (validRows
       [\<lparr> BulkProductRow.id = str ''row_0'', name = str ''Widget'', category = [],
          costPrice = Some (Fin 0), sellingPrice = Some (Fin 5), currentStock = Some (Fin 0),
          lowStockThreshold = Some (Fin 3), isValid = True, errors = [] \<rparr>]) ! 0) = Fin 3"
  (is "validRows ?data = ?data \<and> ?c \<and> ?t \<and> ?nz \<and> ?kept")
proof -
  have v: "validRows ?data = ?data"
    by (simp add: validRows_def trim_def str_def isWhiteSpace_def)
  then have len: "0 < length (validRows ?data)"
    by simp
  have c: ?c and t: ?t and nz: ?nz
    by (simp_all add: nonNegative_def)
  have cost: "BulkProductRow.costPrice (validRows ?data ! 0) = Some (Fin 0)"
    and stock: "BulkProductRow.currentStock (validRows ?data ! 0) = Some (Fin 0)"
    and threshold: "BulkProductRow.lowStockThreshold (validRows ?data ! 0) = Some (Fin 3)"
    by (simp_all add: v)
  have ?kept
    by (rule products_keep_entered_values[OF len cost c stock c threshold t nz])
  with v c t nz show ?thesis
    by blast
qed

text \<open>
  Claim C9. \<open>downloadTemplate\<close> always offers the file \<open>bulk-products-template.csv\<close>
  holding the header line and the two sample lines, separated by line feeds, and shows its
  toast; the modal's state is neither read nor changed.
\<close>

theorem downloadTemplate_fixed:
  "downloadTemplate st =
     (st,
      [Download (str ''bulk-products-template.csv'') (str ''text/csv'')
         (str ''Name,Category,Cost Price,Selling Price,Current Stock,Low Stock Threshold''
          @ [0x000A] @ str ''Sample Product,General,10.00,15.00,100,10''
          @ [0x000A] @ str ''Another Product,Electronics,25.50,35.00,50,5''),
       Toast \<lparr> title = str ''Template Downloaded'',
               description = str ''CSV template has been downloaded to your device.'',
               variant = None,
               duration = None \<rparr>])
   \<and> snd (downloadTemplate st) = snd (downloadTemplate st')"
  by (simp add: downloadTemplate_def csvContent_def)

section \<open>Properties of opening and clearing\<close>

text \<open>
  Claim C7. Opening with an empty Row Store installs the twenty rows \<open>row_0\<close> to
  \<open>row_19\<close>, all blank; on a Row Store that is not empty the initialisation changes
  nothing; and running it twice is the same as running it once.
\<close>

theorem initialize_idempotent:
  "(spreadsheetData st = [] \<longrightarrow>
      initialize True st = st\<lparr>spreadsheetData := initialData\<rparr>)
   \<and> length initialData = 20
   \<and> map BulkProductRow.id initialData = map (\<lambda>index. str ''row_'' @ decimal index) [0..<20]
   \<and> (\<forall>row \<in> set initialData.
         BulkProductRow.name row = [] \<and> BulkProductRow.category row = []
         \<and> BulkProductRow.costPrice row = None \<and> BulkProductRow.sellingPrice row = None
         \<and> BulkProductRow.currentStock row = None \<and> BulkProductRow.lowStockThreshold row = None
         \<and> \<not> isValid row \<and> errors row = [])
   \<and> (spreadsheetData st \<noteq> [] \<longrightarrow> initialize isOpen st = st)
   \<and> initialize isOpen (initialize isOpen st) = initialize isOpen st"
proof (intro conjI)
  show "spreadsheetData st = [] \<longrightarrow> initialize True st = st\<lparr>spreadsheetData := initialData\<rparr>"
    by (simp add: initialize_def)
  show "length initialData = 20" by (rule length_initialData)
  show "map BulkProductRow.id initialData = map (\<lambda>index. str ''row_'' @ decimal index) [0..<20]"
    by (simp add: initialData_def)
  show "\<forall>row \<in> set initialData.
         BulkProductRow.name row = [] \<and> BulkProductRow.category row = []
         \<and> BulkProductRow.costPrice row = None \<and> BulkProductRow.sellingPrice row = None
         \<and> BulkProductRow.currentStock row = None \<and> BulkProductRow.lowStockThreshold row = None
         \<and> \<not> isValid row \<and> errors row = []"
    by (auto simp: initialData_def)
  show "spreadsheetData st \<noteq> [] \<longrightarrow> initialize isOpen st = st"
    by (simp add: initialize_def)
  have "length (spreadsheetData (st\<lparr>spreadsheetData := initialData\<rparr>)) \<noteq> 0"
    by (simp add: length_initialData)
  then show "initialize isOpen (initialize isOpen st) = initialize isOpen st"
    by (simp add: initialize_def)
qed

text \<open>
  The initial state is filled on opening; a state holding one edited row is left alone.
\<close>

theorem initialize_idempotent_witness:
  "spreadsheetData initialState = []
   \<and> initialize True initialState =
       \<lparr> viewMode = Spreadsheet, selectedTemplates = [], spreadsheetData = initialData \<rparr>
   \<and> hd initialData \<in> set initialData
   \<and> hd initialData =
       \<lparr> BulkProductRow.id = str ''row_0'', name = [], category = [], costPrice = None,
         sellingPrice = None, currentStock = None, lowStockThreshold = None,
         isValid = False, errors = [] \<rparr>
   \<and> spreadsheetData
        \<lparr> viewMode = Templates, selectedTemplates = [],
          spreadsheetData =
            [\<lparr> BulkProductRow.id = str ''row_0'', name = str ''Widget'', category = [],
               costPrice = None, sellingPrice = Some (Fin (999 / 100)), currentStock = None,
               lowStockThreshold = None, isValid = True, errors = [] \<rparr>] \<rparr> \<noteq> []
   \<and> initialize True
        \<lparr> viewMode = Templates, selectedTemplates = [],
          spreadsheetData =
            [\<lparr> BulkProductRow.id = str ''row_0'', name = str ''Widget'', category = [],
               costPrice = None, sellingPrice = Some (Fin (999 / 100)), currentStock = None,
               lowStockThreshold = None, isValid = True, errors = [] \<rparr>] \<rparr>
     = \<lparr> viewMode = Templates, selectedTemplates = [],
          spreadsheetData =
            [\<lparr> BulkProductRow.id = str ''row_0'', name = str ''Widget'', category = [],
               costPrice = None, sellingPrice = Some (Fin (999 / 100)), currentStock = None,
               lowStockThreshold = None, isValid = True, errors = [] \<rparr>] \<rparr>"
  (is "?e \<and> ?open \<and> ?mem \<and> ?hd \<and> ?ne \<and> ?noop")
proof -
  have e: ?e
    by (simp add: initialState_def)
  have ?open
    using initialize_idempotent[of initialState True] e
    by (simp add: initialState_def)
  moreover have ?mem
    by (rule hd_in_set) (use length_initialData in auto)
  moreover have ?hd
    by code_simp
  moreover have ne: ?ne
    by simp
  moreover have ?noop
    using initialize_idempotent[of "\<lparr> viewMode = Templates, selectedTemplates = [],
          spreadsheetData =
            [\<lparr> BulkProductRow.id = str ''row_0'', name = str ''Widget'', category = [],
               costPrice = None, sellingPrice = Some (Fin (999 / 100)), currentStock = None,
               lowStockThreshold = None, isValid = True, errors = [] \<rparr>] \<rparr>" True] ne
    by blast
  ultimately show ?thesis
    using e by (intro conjI)
qed

text \<open>
  Claim C6. \<open>handleClearAll\<close> empties every editable field of every row, sets
  \<open>isValid\<close> to false and \<open>errors\<close> to the empty list, and empties the selection. It calls
  neither \<open>onClose\<close> nor anything else and leaves the view mode alone. Afterwards no row is
  filled, and the rows have the identifiers they had, in the same order and number.
\<close>

theorem handleClearAll_resets:
  "snd (handleClearAll st) = []
   \<and> selectedTemplates (fst (handleClearAll st)) = []
   \<and> viewMode (fst (handleClearAll st)) = viewMode st
   \<and> (\<forall>row \<in> set (spreadsheetData (fst (handleClearAll st))).
         BulkProductRow.name row = [] \<and> BulkProductRow.category row = []
         \<and> BulkProductRow.costPrice row = None \<and> BulkProductRow.sellingPrice row = None
         \<and> BulkProductRow.currentStock row = None \<and> BulkProductRow.lowStockThreshold row = None
         \<and> \<not> isValid row \<and> errors row = [])
   \<and> filledProductsCount (fst (handleClearAll st)) = 0
   \<and> map BulkProductRow.id (spreadsheetData (fst (handleClearAll st)))
       = map BulkProductRow.id (spreadsheetData st)
   \<and> length (spreadsheetData (fst (handleClearAll st))) = length (spreadsheetData st)"
  by (auto simp: handleClearAll_def filledProductsCount_def trim_def filter_empty_conv)

text \<open>
  A store with one filled row and one selected template.
\<close>

theorem handleClearAll_resets_witness:
  "filledProductsCount
      \<lparr> viewMode = Templates,
        selectedTemplates = [\<lparr> ProductTemplate.id = str ''t1'', name = str ''Soap'',
                               category = Some (str ''Household''), image_url = None \<rparr>],
        spreadsheetData =
          [\<lparr> BulkProductRow.id = str ''row_0'', name = str ''Widget'', category = str ''Tools'',
             costPrice = Some (Fin 4), sellingPrice = Some (Fin (999 / 100)),
             currentStock = Some (Fin 3), lowStockThreshold = Some (Fin 2),
             isValid = True, errors = [] \<rparr>,
           \<lparr> BulkProductRow.id = str ''row_1'', name = [], category = [],
             costPrice = None, sellingPrice = None, currentStock = None,
             lowStockThreshold = None, isValid = False, errors = [] \<rparr>] \<rparr> = 1
   \<and> handleClearAll
      \<lparr> viewMode = Templates,
        selectedTemplates = [\<lparr> ProductTemplate.id = str ''t1'', name = str ''Soap'',
                               category = Some (str ''Household''), image_url = None \<rparr>],
        spreadsheetData =
          [\<lparr> BulkProductRow.id = str ''row_0'', name = str ''Widget'', category = str ''Tools'',
             costPrice = Some (Fin 4), sellingPrice = Some (Fin (999 / 100)),
             currentStock = Some (Fin 3), lowStockThreshold = Some (Fin 2),
             isValid = True, errors = [] \<rparr>,
           \<lparr> BulkProductRow.id = str ''row_1'', name = [], category = [],
             costPrice = None, sellingPrice = None, currentStock = None,
             lowStockThreshold = None, isValid = False, errors = [] \<rparr>] \<rparr>
     = (\<lparr> viewMode = Templates, selectedTemplates = [],
          spreadsheetData =
            [\<lparr> BulkProductRow.id = str ''row_0'', name = [], category = [],
               costPrice = None, sellingPrice = None, currentStock = None,
               lowStockThreshold = None, isValid = False, errors = [] \<rparr>,
             \<lparr> BulkProductRow.id = str ''row_1'', name = [], category = [],
               costPrice = None, sellingPrice = None, currentStock = None,
               lowStockThreshold = None, isValid = False, errors = [] \<rparr>] \<rparr>, [])
   \<and> filledProductsCount (fst (handleClearAll
      \<lparr> viewMode = Templates,
        selectedTemplates = [\<lparr> ProductTemplate.id = str ''t1'', name = str ''Soap'',
                               category = Some (str ''Household''), image_url = None \<rparr>],
        spreadsheetData =
          [\<lparr> BulkProductRow.id = str ''row_0'', name = str ''Widget'', category = str ''Tools'',
             costPrice = Some (Fin 4), sellingPrice = Some (Fin (999 / 100)),
             currentStock = Some (Fin 3), lowStockThreshold = Some (Fin 2),
             isValid = True, errors = [] \<rparr>,
           \<lparr> BulkProductRow.id = str ''row_1'', name = [], category = [],
             costPrice = None, sellingPrice = None, currentStock = None,
             lowStockThreshold = None, isValid = False, errors = [] \<rparr>] \<rparr>)) = 0"
  (is "?before \<and> handleClearAll ?st = ?res \<and> ?after")
proof -
  have ?before
    by (simp add: filledProductsCount_def trim_def str_def isWhiteSpace_def)
  moreover have "handleClearAll ?st = ?res"
    by (simp add: handleClearAll_def)
  moreover have ?after
    using handleClearAll_resets[of ?st] by blast
  ultimately show ?thesis
    by (intro conjI)
qed

section \<open>Properties of the template filter\<close>

text \<open>
  Claim C8. With an empty search term and the category \<open>all\<close> the filter returns the
  templates as they are; with any search term and category its result is a subsequence of
  the templates, in their order.
\<close>

theorem filteredTemplates_order:
  "filteredTemplates toLowerCase (Some ts) [] (str ''all'') = ts
   \<and> subseq (filteredTemplates toLowerCase (Some ts) localSearchTerm selectedCategory) ts"
proof
  show "filteredTemplates toLowerCase (Some ts) [] (str ''all'') = ts"
    by (simp add: filteredTemplates_def trim_def)
next
  have "subseq (filter P (filter Q ts)) ts" for P Q :: "ProductTemplate \<Rightarrow> bool"
    by (metis subseq_filter_left subseq_order.order_trans)
  then show "subseq (filteredTemplates toLowerCase (Some ts) localSearchTerm selectedCategory) ts"
    by (simp add: filteredTemplates_def Let_def)
qed

text \<open>
  Searching \<open>HOUSE\<close> within the category \<open>Household\<close> keeps the first and the third
  template, with ASCII lower-casing for \<open>toLowerCase\<close>.
\<close>

theorem filteredTemplates_order_witness:
  "filteredTemplates (map (\<lambda>u. if 0x41 \<le> u \<and> u \<le> 0x5A then u + 0x20 else u))
     (Some [\<lparr> ProductTemplate.id = str ''t1'', name = str ''Soap'',
               category = Some (str ''Household''), image_url = None \<rparr>,
            \<lparr> ProductTemplate.id = str ''t2'', name = str ''Rice'',
               category = None, image_url = None \<rparr>,
            \<lparr> ProductTemplate.id = str ''t3'', name = str ''Sponge'',
               category = Some (str ''Household''), image_url = None \<rparr>])
     (str '' HOUSE '') (str ''Household'')
   = [\<lparr> ProductTemplate.id = str ''t1'', name = str ''Soap'',
        category = Some (str ''Household''), image_url = None \<rparr>,
      \<lparr> ProductTemplate.id = str ''t3'', name = str ''Sponge'',
        category = Some (str ''Household''), image_url = None \<rparr>]
   \<and> subseq
       (filteredTemplates (map (\<lambda>u. if 0x41 \<le> u \<and> u \<le> 0x5A then u + 0x20 else u))
         (Some [\<lparr> ProductTemplate.id = str ''t1'', name = str ''Soap'',
               category = Some (str ''Household''), image_url = None \<rparr>,
            \<lparr> ProductTemplate.id = str ''t2'', name = str ''Rice'',
               category = None, image_url = None \<rparr>,
            \<lparr> ProductTemplate.id = str ''t3'', name = str ''Sponge'',
               category = Some (str ''Household''), image_url = None \<rparr>])
         (str '' HOUSE '') (str ''Household''))
       [\<lparr> ProductTemplate.id = str ''t1'', name = str ''Soap'',
               category = Some (str ''Household''), image_url = None \<rparr>,
            \<lparr> ProductTemplate.id = str ''t2'', name = str ''Rice'',
               category = None, image_url = None \<rparr>,
            \<lparr> ProductTemplate.id = str ''t3'', name = str ''Sponge'',
               category = Some (str ''Household''), image_url = None \<rparr>]"
  (is "?run \<and> ?sub")
proof
  show ?run
    by code_simp
  show ?sub
    using filteredTemplates_order by blast
qed

section \<open>Properties of the bulk creation\<close>





end
